theory Spec2Isabelle
  imports Main "HOL-Library.Sublist"
begin

section \<open>Python strings\<close>

text \<open>
  A Python \<open>str\<close> is a sequence of code points. The model covers the code points
  below 256, one \<open>char\<close> each, so \<open>length\<close> and \<open>take\<close> count what \<open>len\<close> and
  slicing count. The character classes below are those of Python 3 on that range:
  \<open>str.isspace\<close> and the pattern \<open>\s\<close> agree there, and \<open>\w\<close> is \<open>str.isalnum\<close>
  plus the underscore.
\<close>

definition code_point :: "char \<Rightarrow> nat" where
  "code_point c = of_char c"

definition is_space :: "char \<Rightarrow> bool" where
  "is_space c = (let n = code_point c in
     (9 \<le> n \<and> n \<le> 13) \<or> (28 \<le> n \<and> n \<le> 32) \<or> n = 133 \<or> n = 160)"

definition is_word :: "char \<Rightarrow> bool" where
  "is_word c = (let n = code_point c in
     (48 \<le> n \<and> n \<le> 57) \<or> (65 \<le> n \<and> n \<le> 90) \<or> n = 95 \<or> (97 \<le> n \<and> n \<le> 122)
     \<or> n = 170 \<or> n = 178 \<or> n = 179 \<or> n = 181 \<or> n = 185 \<or> n = 186
     \<or> (188 \<le> n \<and> n \<le> 190) \<or> (192 \<le> n \<and> n \<le> 214) \<or> (216 \<le> n \<and> n \<le> 246)
     \<or> (248 \<le> n \<and> n \<le> 255))"

text \<open>\<open>str.lower\<close>: the upper-case letters of ASCII and Latin-1 move up by 32.\<close>

definition lower_char :: "char \<Rightarrow> char" where
  "lower_char c = (let n = code_point c in
     if (65 \<le> n \<and> n \<le> 90) \<or> (192 \<le> n \<and> n \<le> 214) \<or> (216 \<le> n \<and> n \<le> 222)
     then char_of (n + 32) else c)"

definition lower :: "string \<Rightarrow> string" where
  "lower s = map lower_char s"

text \<open>
  \<open>str.upper\<close>: the sharp s (223) becomes two letters. The upper-case forms of the
  micro sign (181) and of y with diaeresis (255) lie beyond code point 255; the model
  leaves these two in place, which no test for an ASCII substring can tell apart.
\<close>

definition upper_char :: "char \<Rightarrow> string" where
  "upper_char c = (let n = code_point c in
     if n = 223 then ''SS''
     else if (97 \<le> n \<and> n \<le> 122) \<or> (224 \<le> n \<and> n \<le> 246) \<or> (248 \<le> n \<and> n \<le> 254)
     then [char_of (n - 32)] else [c])"

definition upper :: "string \<Rightarrow> string" where
  "upper s = concat (map upper_char s)"

text \<open>\<open>s.strip()\<close> removes the white space at both ends.\<close>

definition strip :: "string \<Rightarrow> string" where
  "strip s = rev (dropWhile is_space (rev (dropWhile is_space s)))"

text \<open>\<open>needle in hay\<close> on strings: the needle starts at some position of the hay.\<close>

fun contains :: "string \<Rightarrow> string \<Rightarrow> bool" where
  "contains needle [] = (needle = [])"
| "contains needle (h # hay) = (prefix needle (h # hay) \<or> contains needle hay)"

section \<open>The element tree\<close>

text \<open>
  An \<open>xml.etree.ElementTree.Element\<close>: tag, attribute dictionary (in insertion
  order), text before the first child, tail after the closing tag, the children, and
  the line number that \<open>LineNumberingParser\<close> attaches (absent on an element made
  by \<open>ET.Element\<close>, where \<open>getattr\<close> falls back to \<open>"?"\<close>).
\<close>

datatype element = Element
  (tag: string)
  (attrib: "(string \<times> string) list")
  (text_of: "string option")
  (tail_of: "string option")
  (children: "element list")
  (start_line_number: "nat option")

text \<open>\<open>elem.iter()\<close>: the element itself, then its descendants, in document order.\<close>

fun iter :: "element \<Rightarrow> element list" where
  "iter (Element tg ats tx ta cs ln) = Element tg ats tx ta cs ln # concat (map iter cs)"

text \<open>The \<open>if t: yield t\<close> of \<open>itertext\<close>: \<open>None\<close> and the empty string yield nothing.\<close>

definition if_text :: "string option \<Rightarrow> string list" where
  "if_text t = (case t of None \<Rightarrow> [] | Some s \<Rightarrow> if s = [] then [] else [s])"

fun itertext :: "element \<Rightarrow> string list" where
  "itertext (Element tg ats tx ta cs ln) =
     if_text tx @ concat (map (\<lambda>c. itertext c @ if_text (tail_of c)) cs)"

text \<open>The argument of \<open>print_aem_violation\<close> for the line: a number or a string.\<close>

datatype line_arg = LineNum nat | LineStr string

definition line_of :: "element \<Rightarrow> line_arg" where
  "line_of elem = (case start_line_number elem of Some n \<Rightarrow> LineNum n | None \<Rightarrow> LineStr ''?'')"

definition full_text_of :: "element \<Rightarrow> string" where
  "full_text_of elem = strip (concat (itertext elem))"

definition has_attr :: "string \<Rightarrow> element \<Rightarrow> bool" where
  "has_attr a elem = (a \<in> set (map fst (attrib elem)))"

section \<open>The auditor (tpc.py)\<close>

text \<open>One call of \<open>print_aem_violation(tag, line, context, violation, fix, spec_ref)\<close>.\<close>

record violation =
  v_tag :: string
  v_line :: line_arg
  v_context :: string
  v_violation :: string
  v_fix :: string
  v_spec_ref :: string

datatype printed = Violation violation | Note line_arg

record report_state =
  violation_count :: nat
  printed :: "printed list"

definition print_aem_violation ::
  "string \<Rightarrow> line_arg \<Rightarrow> string \<Rightarrow> string \<Rightarrow> string \<Rightarrow> string \<Rightarrow> printed" where
  "print_aem_violation tg line context viol fx spec_ref =
     Violation \<lparr>v_tag = tg, v_line = line, v_context = context, v_violation = viol,
                v_fix = fx, v_spec_ref = spec_ref\<rparr>"

text \<open>\<open>violation_count += 1\<close> followed by the call of \<open>print_aem_violation\<close>.\<close>

definition count_and_print ::
  "printed \<Rightarrow> ('a report_state_scheme) \<Rightarrow> ('a report_state_scheme)" where
  "count_and_print p st =
     st\<lparr>violation_count := violation_count st + 1, printed := printed st @ [p]\<rparr>"

definition aem_rules :: "(string \<times> string list \<times> string) list" where
  "aem_rules =
    [(''article'', [''article-type''], ''Article-type''),
     (''article-id'', [''pub-id-type''], ''JATS: article-id''),
     (''book-id'', [''pub-id-type''], ''BITS: book-id''),
     (''contrib'', [''contrib-type''], ''Contributors''),
     (''publisher-loc'', [], ''Publisher''),
     (''table-wrap'', [''id'', ''position''], ''Tables''),
     (''fig'', [''id'', ''position''], ''Figures''),
     (''graphic'', [''xlink:href''], ''Figures''),
     (''ext-link'', [''xlink:href'', ''ext-link-type''], ''External References''),
     (''disp-formula'', [''id''], ''Math Equations''),
     (''inline-formula'', [''id''], ''Math Equations'')]"

definition missing_attr_msg :: "string \<Rightarrow> string" where
  "missing_attr_msg attr = ''Missing mandatory attribute: '' @ [CHR 0x27] @ attr @ [CHR 0x27]"

definition add_attr_msg :: "string \<Rightarrow> string \<Rightarrow> string" where
  "add_attr_msg attr spec_name = ''Add '' @ attr @ '' to follow '' @ spec_name @ '' guidelines.''"

text \<open>The loop \<open>for attr in required_attrs\<close>.\<close>

fun check_required_attrs ::
  "element \<Rightarrow> string \<Rightarrow> string list \<Rightarrow> report_state \<Rightarrow> report_state" where
  "check_required_attrs elem spec_name [] st = st"
| "check_required_attrs elem spec_name (attr # attrs) st =
     check_required_attrs elem spec_name attrs
       (if \<not> has_attr attr elem
        then count_and_print
               (print_aem_violation (tag elem) (line_of elem) (full_text_of elem)
                  (missing_attr_msg attr) (add_attr_msg attr spec_name) spec_name) st
        else st)"

definition mandatory_attribute_check :: "element \<Rightarrow> report_state \<Rightarrow> report_state" where
  "mandatory_attribute_check elem st =
     (case map_of aem_rules (tag elem) of
        Some (required_attrs, spec_name) \<Rightarrow> check_required_attrs elem spec_name required_attrs st
      | None \<Rightarrow> st)"

definition publisher_location_rule :: "bool \<Rightarrow> element \<Rightarrow> report_state \<Rightarrow> report_state" where
  "publisher_location_rule is_bits elem st =
     (if is_bits \<and> tag elem = ''publisher''
         \<and> \<not> list_ex (\<lambda>child. tag child = ''publisher-loc'') (children elem)
      then count_and_print
             (print_aem_violation (tag elem) (line_of elem) (full_text_of elem)
                ''Missing <publisher-loc>''
                (''Spec Rule: <publisher-loc> is mandatory in BITS. Use ''
                   @ [CHR 0x27] @ ''Washington DC'' @ [CHR 0x27] @ '' for gov-based if unknown.'')
                ''Publisher'') st
      else st)"

definition emphasis_rule :: "element \<Rightarrow> report_state \<Rightarrow> report_state" where
  "emphasis_rule elem st =
     (if tag elem \<in> set [''title'', ''article-title'', ''book-title'']
         \<and> length (children elem) = 1 \<and> tag (hd (children elem)) = ''bold''
      then count_and_print
             (print_aem_violation (tag elem) (line_of elem) (full_text_of elem)
                ''Uniform Bold Emphasis found in Title''
                ''Spec Rule: Remove uniform emphasis in titles unless it provides additional meaning.''
                ''Emphasis'') st
      else st)"

definition math_rule :: "element \<Rightarrow> report_state \<Rightarrow> report_state" where
  "math_rule elem st =
     (if tag elem \<in> set [''disp-formula'', ''inline-formula''] \<and> \<not> has_attr ''id'' elem
      then count_and_print
             (print_aem_violation (tag elem) (line_of elem) (full_text_of elem)
                ''Math Equation missing ID''
                (''Spec Rule: '' @ [CHR 0x27] @ ''id'' @ [CHR 0x27]
                   @ '' is mandatory for linking to <xref> pointers.'')
                ''Math Equations'') st
      else st)"

text \<open>The body of \<open>for elem in root.iter()\<close>: the four checks, in the source's order.\<close>

definition audit_elem :: "bool \<Rightarrow> element \<Rightarrow> report_state \<Rightarrow> report_state" where
  "audit_elem is_bits elem st =
     math_rule elem
       (emphasis_rule elem
          (publisher_location_rule is_bits elem
             (mandatory_attribute_check elem st)))"

text \<open>
  \<open>run_aem_audit\<close>, given the file's name and what \<open>ET.parse\<close> made of it: \<open>None\<close>
  stands for any exception of the parser, after which the function returns at once.
  The banner and the summary dashboard are not part of the result; the violation
  count and the calls of \<open>print_aem_violation\<close>, in order, are.
\<close>

definition run_aem_audit :: "string \<Rightarrow> element option \<Rightarrow> report_state option" where
  "run_aem_audit name parsed =
     (case parsed of
        None \<Rightarrow> None
      | Some root \<Rightarrow>
          (let filename = upper name;
               is_bits = contains ''_BITS'' filename
           in Some (fold (audit_elem is_bits) (iter root)
                      \<lparr>violation_count = 0, printed = []\<rparr>)))"

section \<open>The auto-fixer (fix_xml.py)\<close>

subsection \<open>The soft-hyphen pattern\<close>

text \<open>
  \<open>re.sub(r'(\w)-\s+(\w)', r'\1\2', text)\<close>. The scan goes from left to right. At a
  word character followed by a hyphen, the run of white space after the hyphen is
  taken whole (\<open>\s+\<close> is greedy, and giving back part of the run cannot help: the
  next character would be white space, never a word character); the match succeeds
  when that run is not empty and a word character follows it. A match is replaced by
  its two word characters and the scan resumes after the match, so the second word
  character is consumed. Where there is no match the character is copied.
\<close>

lemma dropWhile_shorter: "length (dropWhile P xs) - Suc 0 \<le> Suc (length xs)"
  using length_dropWhile_le [of P xs] by linarith

function re_sub_hyphen :: "string \<Rightarrow> string" where
  "re_sub_hyphen [] = []"
| "re_sub_hyphen (c # rest) =
     (case rest of
        [] \<Rightarrow> [c]
      | h # after \<Rightarrow>
          (let gap = takeWhile is_space after; more = dropWhile is_space after in
           if is_word c \<and> h = CHR ''-'' \<and> gap \<noteq> [] \<and> more \<noteq> [] \<and> is_word (hd more)
           then c # hd more # re_sub_hyphen (tl more)
           else c # re_sub_hyphen rest))"
  by pat_completeness auto
termination
  by (relation "measure length") (auto simp: less_Suc_eq_le le_SucI dropWhile_shorter)

subsection \<open>Mutating an element\<close>

definition set_text :: "string option \<Rightarrow> element \<Rightarrow> element" where
  "set_text t elem =
     Element (tag elem) (attrib elem) t (tail_of elem) (children elem) (start_line_number elem)"

definition set_children :: "element list \<Rightarrow> element \<Rightarrow> element" where
  "set_children cs elem =
     Element (tag elem) (attrib elem) (text_of elem) (tail_of elem) cs (start_line_number elem)"

text \<open>\<open>ET.Element(tag)\<close> with its attributes and text set: no tail, no children, no line.\<close>

definition new_element :: "string \<Rightarrow> (string \<times> string) list \<Rightarrow> string \<Rightarrow> element" where
  "new_element tg ats t = Element tg ats (Some t) None [] None"

subsection \<open>The front-matter check\<close>

text \<open>
  \<open>root.find(".//tag")\<close>: the first descendant with that tag, in document order; the
  root itself is not a candidate.
\<close>

definition descendants :: "element \<Rightarrow> element list" where
  "descendants root = concat (map iter (children root))"

definition find_descendant :: "string \<Rightarrow> element \<Rightarrow> element option" where
  "find_descendant tg root = List.find (\<lambda>e. tag e = tg) (descendants root)"

text \<open>
  The truth value of an element is that of its length: an element without children
  is false. \<open>x or y\<close> yields \<open>x\<close> when \<open>x\<close> is true and \<open>y\<close> otherwise, so \<open>None\<close> and a
  childless element both give way to the second operand.
\<close>

definition element_bool :: "element \<Rightarrow> bool" where
  "element_bool elem = (length (children elem) \<noteq> 0)"

definition find_article_meta :: "element \<Rightarrow> element option" where
  "find_article_meta root =
     (case find_descendant ''article-meta'' root of
        Some am \<Rightarrow> if element_bool am then Some am else find_descendant ''book-meta'' root
      | None \<Rightarrow> find_descendant ''book-meta'' root)"

text \<open>\<open>elem.find("./article-id[@pub-id-type='nces']") is None\<close>, negated.\<close>

definition has_nces_id :: "element \<Rightarrow> bool" where
  "has_nces_id elem =
     list_ex (\<lambda>c. tag c = ''article-id'' \<and> map_of (attrib c) ''pub-id-type'' = Some ''nces'')
       (children elem)"

text \<open>
  The element that \<open>find\<close> returned is an object of the tree, and \<open>insert\<close> changes it
  in place. In the model the tree is a value, so the change is made where that object
  stands: at the first element, in document order, with the tag that was searched.
\<close>

fun update_first :: "(element \<Rightarrow> bool) \<Rightarrow> (element \<Rightarrow> element) \<Rightarrow> element list \<Rightarrow> element list" where
  "update_first P f [] = []"
| "update_first P f (Element tg ats tx ta cs ln # rest) =
     (if P (Element tg ats tx ta cs ln) then f (Element tg ats tx ta cs ln) # rest
      else if list_ex P (concat (map iter cs))
      then Element tg ats tx ta (update_first P f cs) ln # rest
      else Element tg ats tx ta cs ln # update_first P f rest)"

definition insert_nces_id :: "element \<Rightarrow> element" where
  "insert_nces_id elem =
     set_children (new_element ''article-id'' [(''pub-id-type'', ''nces'')] ''2021-126'' # children elem) elem"

record fixer_state = report_state +
  xml_full_text_list :: "string list"

definition front_matter_check :: "element \<Rightarrow> fixer_state \<Rightarrow> element \<times> fixer_state" where
  "front_matter_check root st =
     (case find_article_meta root of
        None \<Rightarrow> (root, st)
      | Some article_meta \<Rightarrow>
          if \<not> has_nces_id article_meta
          then (set_children
                  (update_first (\<lambda>e. tag e = tag article_meta) insert_nces_id (children root)) root,
                count_and_print
                  (print_aem_violation ''article-id'' (LineStr ''FRONT'') ''N/A''
                     ''Missing NCES ID'' ''Inserted 2021-126'' ''Front Matter'') st)
          else (root, st))"

subsection \<open>The rules of the tree iteration\<close>

definition publisher_loc_fix ::
  "line_arg \<Rightarrow> string \<Rightarrow> element \<Rightarrow> fixer_state \<Rightarrow> element \<times> fixer_state" where
  "publisher_loc_fix line full_text elem st =
     (if tag elem = ''publisher'' \<and> \<not> list_ex (\<lambda>c. tag c = ''publisher-loc'') (children elem)
      then (set_children (children elem @ [new_element ''publisher-loc'' [] ''Washington DC'']) elem,
            count_and_print
              (print_aem_violation (tag elem) line full_text
                 ''Missing Publisher Loc'' ''Added Washington DC'' ''Front Matter'') st)
      else (elem, st))"

text \<open>
  With exactly one child, \<open>elem.remove(child)\<close> leaves no child. The title's own text
  is overwritten by the child's, which may be \<open>None\<close>.
\<close>

definition uniform_bold_fix ::
  "line_arg \<Rightarrow> string \<Rightarrow> element \<Rightarrow> fixer_state \<Rightarrow> element \<times> fixer_state" where
  "uniform_bold_fix line full_text elem st =
     (if tag elem \<in> set [''title'', ''article-title'']
         \<and> length (children elem) = 1 \<and> tag (hd (children elem)) = ''bold''
      then (let child = hd (children elem)
            in (set_children [] (set_text (text_of child) elem),
                count_and_print
                  (print_aem_violation (tag elem) line full_text
                     ''Uniform Bold Removal'' ''Stripped <bold> from title'' ''Emphasis'') st))
      else (elem, st))"

definition soft_hyphen_fix ::
  "line_arg \<Rightarrow> string \<Rightarrow> element \<Rightarrow> fixer_state \<Rightarrow> element \<times> fixer_state" where
  "soft_hyphen_fix line full_text elem st =
     (case text_of elem of
        None \<Rightarrow> (elem, st)
      | Some t \<Rightarrow>
          if t = [] then (elem, st)
          else (let cleaned = re_sub_hyphen t
                in if cleaned \<noteq> t
                   then (set_text (Some cleaned) elem,
                         count_and_print
                           (print_aem_violation (tag elem) line full_text
                              ''Soft-hyphen Artifact'' ''Merged broken word'' ''Text Clean'') st)
                   else (elem, st)))"

definition alt_text_note :: "line_arg \<Rightarrow> element \<Rightarrow> fixer_state \<Rightarrow> fixer_state" where
  "alt_text_note line elem st =
     (if tag elem = ''alt-text''
         \<and> contains ''not available'' (lower (case text_of elem of None \<Rightarrow> [] | Some t \<Rightarrow> t))
      then st\<lparr>printed := printed st @ [Note line]\<rparr>
      else st)"

text \<open>
  The body of \<open>for elem in root.iter()\<close>. Tag, line and flattened text are read once,
  before any rule changes the element.
\<close>

definition fix_elem :: "element \<Rightarrow> fixer_state \<Rightarrow> element \<times> fixer_state" where
  "fix_elem elem st =
     (let line = line_of elem;
          full_text = full_text_of elem;
          st0 = (if full_text \<noteq> []
                 then st\<lparr>xml_full_text_list := xml_full_text_list st @ [full_text]\<rparr> else st);
          (elem1, st1) = publisher_loc_fix line full_text elem st0;
          (elem2, st2) = uniform_bold_fix line full_text elem1 st1;
          (elem3, st3) = soft_hyphen_fix line full_text elem2 st2
      in (elem3, alt_text_note line elem3 st3))"

subsection \<open>The tree iteration\<close>

text \<open>
  \<open>root.iter()\<close> is lazy: it hands out an element and only afterwards looks at that
  element's list of children. The body changes nothing but the element it was handed,
  so the walk sees the children as the body left them: an appended \<open>publisher-loc\<close>
  is visited, a removed \<open>bold\<close> is not. The walk is therefore: run the body on the
  element, then walk its children as they are now, in order.

  The walk ends because every step either descends into the original tree or visits
  an appended \<open>publisher-loc\<close>, which has no children and is no \<open>publisher\<close>; the weight
  below counts the elements plus the appendings still to come.
\<close>

fun weight :: "element \<Rightarrow> nat" where
  "weight (Element tg ats tx ta cs ln) =
     (if tg = ''publisher'' \<and> \<not> list_ex (\<lambda>c. tag c = ''publisher-loc'') cs then 2 else 1)
     + sum_list (map weight cs)"

lemma weight_children_fix_elem:
  "sum_list (map weight (children (fst (fix_elem elem st)))) < weight elem"
  by (cases elem)
     (simp add: fix_elem_def publisher_loc_fix_def uniform_bold_fix_def soft_hyphen_fix_def
        set_children_def set_text_def new_element_def Let_def split: option.splits)

function fix_iter :: "element \<Rightarrow> fixer_state \<Rightarrow> element \<times> fixer_state"
  and fix_children :: "element list \<Rightarrow> fixer_state \<Rightarrow> element list \<times> fixer_state" where
  "fix_iter elem st =
     (let (elem', st') = fix_elem elem st;
          (cs, st'') = fix_children (children elem') st'
      in (set_children cs elem', st''))"
| "fix_children [] st = ([], st)"
| "fix_children (c # cs) st =
     (let (c', st') = fix_iter c st;
          (cs', st'') = fix_children cs st'
      in (c' # cs', st''))"
  by pat_completeness auto
termination
proof (relation "measure (\<lambda>x. case x of
          Inl (elem, st) \<Rightarrow> 2 * weight elem
        | Inr (cs, st) \<Rightarrow> 2 * sum_list (map weight cs) + 1)", goal_cases)
  case 1
  show ?case by simp
next
  case (2 elem st x elem' st')
  then have "elem' = fst (fix_elem elem st)" by (metis fst_conv)
  then show ?case using weight_children_fix_elem [of elem st] by simp
next
  case (3 c cs st)
  show ?case by simp
next
  case (4 c cs st x c' st')
  have "0 < weight c" by (cases c) simp
  then show ?case by simp
qed

text \<open>
  The part of \<open>run_aem_fixer\<close> between parsing and saving. The comparison with the
  PDF text that follows the iteration only prints; it reads neither the count nor the
  tree and is left out.
\<close>

definition fix_tree :: "element \<Rightarrow> element \<times> fixer_state" where
  "fix_tree root =
     (let (root1, st1) = front_matter_check root
                           \<lparr>violation_count = 0, printed = [], xml_full_text_list = []\<rparr>
      in fix_iter root1 st1)"

subsection \<open>Saving the fixed copy\<close>

text \<open>
  A path is the list of its parts, as \<open>pathlib\<close> holds it. \<open>name\<close>, \<open>suffix\<close> and
  \<open>stem\<close> follow the \<open>pathlib\<close> of Python 3.11: the suffix starts at the last dot of
  the name, unless that dot is the first or the last character.
\<close>

type_synonym path = "string list"

definition path_name :: "path \<Rightarrow> string" where
  "path_name p = (if p = [] then [] else last p)"

text \<open>\<open>s.rfind(c)\<close>: the last index of \<open>c\<close>, or \<open>-1\<close>.\<close>

definition rfind :: "char \<Rightarrow> string \<Rightarrow> int" where
  "rfind c s =
     (if c \<in> set s then int (length s) - 1 - int (length (takeWhile (\<lambda>x. x \<noteq> c) (rev s)))
      else - 1)"

definition path_suffix :: "path \<Rightarrow> string" where
  "path_suffix p =
     (let name = path_name p; i = rfind CHR ''.'' name
      in if 0 < i \<and> i < int (length name) - 1 then drop (nat i) name else [])"

definition path_stem :: "path \<Rightarrow> string" where
  "path_stem p =
     (let name = path_name p; i = rfind CHR ''.'' name
      in if 0 < i \<and> i < int (length name) - 1 then take (nat i) name else name)"

text \<open>
  The file system, as far as the fixer touches it: the content of each file and the
  set of directories. Every write succeeds; failures of the operating system are
  outside the model.
\<close>

record file_system =
  files :: "path \<rightharpoonup> string"
  directories :: "path set"

definition path_exists :: "file_system \<Rightarrow> path \<Rightarrow> bool" where
  "path_exists fs p = (p \<in> directories fs \<or> files fs p \<noteq> None)"

text \<open>\<open>p.mkdir(parents=True)\<close>: the directory and every missing ancestor.\<close>

definition mkdir_parents :: "path \<Rightarrow> file_system \<Rightarrow> file_system" where
  "mkdir_parents p fs = fs\<lparr>directories := directories fs \<union> set (tl (prefixes p))\<rparr>"

text \<open>
  \<open>save_fixed_copy\<close>. The serialiser \<open>tree.write\<close> is a parameter, \<open>xml_write\<close>. The
  result is the new file system and the path that was written.
\<close>

definition save_fixed_copy ::
  "(element \<Rightarrow> string) \<Rightarrow> element \<Rightarrow> path \<Rightarrow> file_system \<Rightarrow> file_system \<times> path" where
  "save_fixed_copy xml_write tree original_path fs =
     (let audited_dir = [''files'', ''audited''];
          fs1 = (if \<not> path_exists fs audited_dir then mkdir_parents audited_dir fs else fs);
          new_path = audited_dir @ [path_stem original_path @ ''_FIXED'' @ path_suffix original_path]
      in (fs1\<lparr>files := (files fs1)(new_path \<mapsto> xml_write tree)\<rparr>, new_path))"

text \<open>
  \<open>run_aem_fixer\<close>. The parser \<open>ET.parse\<close> is a parameter, \<open>xml_parse\<close>; a missing
  file and any exception of the parser end the run at once (\<open>XML ERROR\<close>). The result
  is the new file system, the paths written during the run, and the final state of
  the pass (\<open>None\<close> when the run ended at the parser).
\<close>

definition run_aem_fixer ::
  "(string \<Rightarrow> element option) \<Rightarrow> (element \<Rightarrow> string) \<Rightarrow> path \<Rightarrow> file_system
     \<Rightarrow> file_system \<times> path list \<times> fixer_state option" where
  "run_aem_fixer xml_parse xml_write xml_path fs =
     (case (case files fs xml_path of None \<Rightarrow> None | Some data \<Rightarrow> xml_parse data) of
        None \<Rightarrow> (fs, [], None)
      | Some root \<Rightarrow>
          (let (root', st) = fix_tree root
           in if violation_count st > 0
              then (let (fs', new_path) = save_fixed_copy xml_write root' xml_path fs
                    in (fs', [new_path], Some st))
              else (fs, [], Some st)))"

section \<open>Text extraction and containment (Toolkit-main-revison-1/xmlsasd.py)\<close>

text \<open>
  \<open>re.sub(r'\s+', ' ', text)\<close>: every maximal run of white space becomes one space.
\<close>

function re_sub_whitespace :: "string \<Rightarrow> string" where
  "re_sub_whitespace [] = []"
| "re_sub_whitespace (c # rest) =
     (if is_space c then CHR '' '' # re_sub_whitespace (dropWhile is_space rest)
      else c # re_sub_whitespace rest)"
  by pat_completeness auto
termination
  by (relation "measure length") (auto simp: less_Suc_eq_le length_dropWhile_le)

definition clean_text :: "string \<Rightarrow> string" where
  "clean_text text = (if text = [] then [] else strip (re_sub_whitespace text))"

definition paragraph_tags :: "string list" where
  "paragraph_tags = [''p'', ''article-title'', ''title'', ''td'', ''term'', ''def'', ''abstract'']"

text \<open>The body of the loop of \<open>extract_xml_paragraphs\<close>; \<open>extracted\<close> is the list built so far.\<close>

definition extract_paragraph :: "element \<Rightarrow> string list \<Rightarrow> string list" where
  "extract_paragraph elem extracted =
     (if tag elem \<in> set paragraph_tags
      then (let text = concat (itertext elem);
                clean_p = clean_text text
            in if length clean_p > 20 then extracted @ [clean_p] else extracted)
      else extracted)"

text \<open>
  \<open>extract_xml_paragraphs\<close>, given what \<open>ET.parse\<close> made of the file: any exception
  is caught and the result is the empty list.
\<close>

definition extract_xml_paragraphs :: "element option \<Rightarrow> string list" where
  "extract_xml_paragraphs parsed =
     (case parsed of
        None \<Rightarrow> []
      | Some root \<Rightarrow> fold extract_paragraph (iter root) [])"

text \<open>\<open>sep.join(parts)\<close> and \<open>text.split()\<close>, the words between runs of white space.\<close>

fun join :: "string \<Rightarrow> string list \<Rightarrow> string" where
  "join sep [] = []"
| "join sep [x] = x"
| "join sep (x # y # ys) = x @ sep @ join sep (y # ys)"



text \<open>
  The lines of a reconciliation report, one constructor per \<open>print\<close> of the two
  scripts, carrying the values that the format string interpolates. Layout (padding,
  bars, colours) is not modelled. The percentage of the containment summary is a
  float in the source; the model keeps the fraction it is computed from.
\<close>

datatype percentage = Percent_of nat nat | Percent_zero

datatype label = Missing_in_xml nat | Extra_in_xml nat

datatype report_line =
    Border
  | Table_header
  | Row string string
  | Separator
  | Summary nat nat percentage
  | Scan_title
  | Verified nat
  | Dashes char
  | Labelled label string
  | Indented label string

text \<open>The match test and the status text of \<open>draw_table\<close>.\<close>

definition para_match :: "string list \<Rightarrow> string \<Rightarrow> bool" where
  "para_match xml_pool_lower para = list_ex (\<lambda>x. contains (take 60 (lower para)) x) xml_pool_lower"

definition status_text_of :: "bool \<Rightarrow> string" where
  "status_text_of match = (if match then ''FOUND'' else ''MISSING'')"

text \<open>\<open>for i, line in enumerate(lines)\<close>: the status is shown on the first line only.\<close>

fun table_rows :: "string \<Rightarrow> nat \<Rightarrow> string list \<Rightarrow> report_line list" where
  "table_rows status_text i [] = []"
| "table_rows status_text i (line # lines) =
     Row line (if i = 0 then ''['' @ status_text @ '']'' else [])
       # table_rows status_text (i + 1) lines"

text \<open>
  The body of \<open>for para in pdf_paras\<close>. \<open>textwrap.TextWrapper(width).wrap\<close> is a
  parameter, \<open>wrap\<close>; the content width is \<open>115 - 12 - 9\<close>.
\<close>

definition draw_para ::
  "(nat \<Rightarrow> string \<Rightarrow> string list) \<Rightarrow> string list \<Rightarrow> string
     \<Rightarrow> nat \<times> report_line list \<Rightarrow> nat \<times> report_line list" where
  "draw_para wrap xml_pool_lower para st =
     (let match = para_match xml_pool_lower para;
          status_text = status_text_of match;
          found_count = (if match then fst st + 1 else fst st);
          lines = wrap (115 - 12 - 9) para
      in (found_count, snd st @ table_rows status_text 0 lines @ [Separator]))"

definition draw_table ::
  "(nat \<Rightarrow> string \<Rightarrow> string list) \<Rightarrow> string list \<Rightarrow> string list \<Rightarrow> report_line list" where
  "draw_table wrap pdf_paras xml_pool =
     (let xml_pool_lower = map lower xml_pool;
          (found_count, out) =
             fold (draw_para wrap xml_pool_lower) pdf_paras (0, [Border, Table_header, Border]);
          match_pct = (if pdf_paras \<noteq> [] then Percent_of found_count (length pdf_paras)
                       else Percent_zero)
      in out @ [Border, Summary found_count (length pdf_paras) match_pct, Border])"

section \<open>Text extraction and alignment (xmlsasd.py)\<close>

definition sentence_tags :: "string list" where
  "sentence_tags = [''article-title'', ''book-title'', ''subtitle'', ''p'', ''title'',
                    ''label'', ''td'', ''term'', ''def'']"

text \<open>\<open>if t and t.strip(): extracted_parts.append(t.strip())\<close>.\<close>

definition stripped_part :: "string option \<Rightarrow> string list" where
  "stripped_part t =
     (case t of
        None \<Rightarrow> []
      | Some s \<Rightarrow> if s \<noteq> [] \<and> strip s \<noteq> [] then [strip s] else [])"

definition extract_text_parts :: "element \<Rightarrow> string list \<Rightarrow> string list" where
  "extract_text_parts elem extracted_parts =
     (if tag elem \<in> set sentence_tags
      then extracted_parts @ stripped_part (text_of elem) @ stripped_part (tail_of elem)
      else extracted_parts)"

text \<open>
  \<open>extract_xml_text\<close> has no handler: an exception of the parser leaves the function,
  which is the result \<open>None\<close>. Its \<open>clean_text\<close> is the one above, word for word.
\<close>

definition extract_xml_text :: "element option \<Rightarrow> string option" where
  "extract_xml_text parsed =
     (case parsed of
        None \<Rightarrow> None
      | Some root \<Rightarrow> Some (clean_text (join '' '' (fold extract_text_parts (iter root) []))))"

subsection \<open>The sequence matcher of difflib\<close>

text \<open>
  \<open>difflib.Differ().compare(a, b)\<close> as far as the comparison graph needs it:
  \<open>SequenceMatcher\<close> without a junk predicate and with its default \<open>autojunk\<close>.
  \<open>b2j\<close> lists the positions of an element in \<open>b\<close>; for 200 elements or more, an
  element that fills more than one percent of \<open>b\<close> (plus one) is dropped as popular.
\<close>

definition b2j :: "'a list \<Rightarrow> 'a \<Rightarrow> nat list" where
  "b2j b elt =
     (let idxs = filter (\<lambda>j. b ! j = elt) [0..<length b]; n = length b
      in if 200 \<le> n \<and> n div 100 + 1 < length idxs then [] else idxs)"

text \<open>
  The inner loop of \<open>find_longest_match\<close>. \<open>j2len\<close> is a dictionary read with default
  \<open>0\<close>, and \<open>j - 1\<close> for \<open>j = 0\<close> is a key it never holds. \<open>k\<close> is the length of a common
  run that ends at \<open>i\<close> and \<open>j\<close>, so \<open>i - k + 1\<close> and \<open>j - k + 1\<close> are positions.
\<close>

fun scan_js ::
  "nat \<Rightarrow> nat \<Rightarrow> nat \<Rightarrow> (nat \<Rightarrow> nat) \<Rightarrow> nat list
     \<Rightarrow> (nat \<times> nat \<times> nat) \<times> (nat \<Rightarrow> nat) \<Rightarrow> (nat \<times> nat \<times> nat) \<times> (nat \<Rightarrow> nat)" where
  "scan_js i blo bhi j2len [] st = st"
| "scan_js i blo bhi j2len (j # js) (best, newj2len) =
     (if j < blo then scan_js i blo bhi j2len js (best, newj2len)
      else if bhi \<le> j then (best, newj2len)
      else (let k = (if j = 0 then 0 else j2len (j - 1)) + 1
            in scan_js i blo bhi j2len js
                 (if snd (snd best) < k then (i + 1 - k, j + 1 - k, k) else best,
                  newj2len(j := k))))"

definition scan_i ::
  "'a list \<Rightarrow> 'a list \<Rightarrow> nat \<Rightarrow> nat \<Rightarrow> nat
     \<Rightarrow> (nat \<times> nat \<times> nat) \<times> (nat \<Rightarrow> nat) \<Rightarrow> (nat \<times> nat \<times> nat) \<times> (nat \<Rightarrow> nat)" where
  "scan_i a b blo bhi i st = scan_js i blo bhi (snd st) (b2j b (a ! i)) (fst st, \<lambda>j. 0)"

function extend_left ::
  "'a list \<Rightarrow> 'a list \<Rightarrow> nat \<Rightarrow> nat \<Rightarrow> nat \<times> nat \<times> nat \<Rightarrow> nat \<times> nat \<times> nat" where
  "extend_left a b alo blo (besti, bestj, bestsize) =
     (if alo < besti \<and> blo < bestj \<and> a ! (besti - 1) = b ! (bestj - 1)
      then extend_left a b alo blo (besti - 1, bestj - 1, bestsize + 1)
      else (besti, bestj, bestsize))"
  by pat_completeness auto
termination
  by (relation "measure (\<lambda>(a, b, alo, blo, besti, bestj, bestsize). besti)") auto

function extend_right ::
  "'a list \<Rightarrow> 'a list \<Rightarrow> nat \<Rightarrow> nat \<Rightarrow> nat \<times> nat \<times> nat \<Rightarrow> nat \<times> nat \<times> nat" where
  "extend_right a b ahi bhi (besti, bestj, bestsize) =
     (if besti + bestsize < ahi \<and> bestj + bestsize < bhi
         \<and> a ! (besti + bestsize) = b ! (bestj + bestsize)
      then extend_right a b ahi bhi (besti, bestj, bestsize + 1)
      else (besti, bestj, bestsize))"
  by pat_completeness auto
termination
  by (relation "measure (\<lambda>(a, b, ahi, bhi, besti, bestj, bestsize). ahi - (besti + bestsize))") auto

text \<open>
  \<open>find_longest_match\<close>. Without a junk predicate the two loops that absorb junk on
  either side never run.
\<close>

definition find_longest_match ::
  "'a list \<Rightarrow> 'a list \<Rightarrow> nat \<Rightarrow> nat \<Rightarrow> nat \<Rightarrow> nat \<Rightarrow> nat \<times> nat \<times> nat" where
  "find_longest_match a b alo ahi blo bhi =
     (let best = fst (fold (scan_i a b blo bhi) [alo..<ahi] ((alo, blo, 0), \<lambda>j. 0))
      in extend_right a b ahi bhi (extend_left a b alo blo best))"

text \<open>
  The queue of \<open>get_matching_blocks\<close> is a stack (\<open>append\<close>, \<open>pop\<close>): its top is the
  head of the list. The loop runs on fuel; \<open>None\<close> means the fuel ran out.
\<close>

fun blocks_loop ::
  "nat \<Rightarrow> 'a list \<Rightarrow> 'a list \<Rightarrow> (nat \<times> nat \<times> nat \<times> nat) list \<Rightarrow> (nat \<times> nat \<times> nat) list
     \<Rightarrow> (nat \<times> nat \<times> nat) list option" where
  "blocks_loop fuel a b [] matching_blocks = Some matching_blocks"
| "blocks_loop 0 a b (q # queue) matching_blocks = None"
| "blocks_loop (Suc fuel) a b ((alo, ahi, blo, bhi) # queue) matching_blocks =
     (case find_longest_match a b alo ahi blo bhi of
        (i, j, k) \<Rightarrow>
          if k \<noteq> 0
          then blocks_loop fuel a b
                 ((if i + k < ahi \<and> j + k < bhi then [(i + k, ahi, j + k, bhi)] else [])
                  @ (if alo < i \<and> blo < j then [(alo, i, blo, j)] else []) @ queue)
                 (matching_blocks @ [(i, j, k)])
          else blocks_loop fuel a b queue matching_blocks)"

text \<open>\<open>matching_blocks.sort()\<close>: tuples in lexicographic order.\<close>

fun block_le :: "nat \<times> nat \<times> nat \<Rightarrow> nat \<times> nat \<times> nat \<Rightarrow> bool" where
  "block_le (i1, j1, k1) (i2, j2, k2) = (i1 < i2 \<or> (i1 = i2 \<and> (j1 < j2 \<or> (j1 = j2 \<and> k1 \<le> k2))))"

fun insert_block :: "nat \<times> nat \<times> nat \<Rightarrow> (nat \<times> nat \<times> nat) list \<Rightarrow> (nat \<times> nat \<times> nat) list" where
  "insert_block x [] = [x]"
| "insert_block x (y # ys) = (if block_le x y then x # y # ys else y # insert_block x ys)"

definition sort_blocks :: "(nat \<times> nat \<times> nat) list \<Rightarrow> (nat \<times> nat \<times> nat) list" where
  "sort_blocks xs = foldr insert_block xs []"

text \<open>The loop that merges adjacent blocks; the state is \<open>(i1, j1, k1)\<close> and the result list.\<close>

definition merge_adjacent ::
  "nat \<times> nat \<times> nat \<Rightarrow> (nat \<times> nat \<times> nat) \<times> (nat \<times> nat \<times> nat) list
     \<Rightarrow> (nat \<times> nat \<times> nat) \<times> (nat \<times> nat \<times> nat) list" where
  "merge_adjacent blk st =
     (case (blk, fst st) of
        ((i2, j2, k2), (i1, j1, k1)) \<Rightarrow>
          if i1 + k1 = i2 \<and> j1 + k1 = j2 then ((i1, j1, k1 + k2), snd st)
          else ((i2, j2, k2), if k1 \<noteq> 0 then snd st @ [(i1, j1, k1)] else snd st))"

definition get_matching_blocks :: "'a list \<Rightarrow> 'a list \<Rightarrow> (nat \<times> nat \<times> nat) list option" where
  "get_matching_blocks a b =
     (let la = length a; lb = length b
      in case blocks_loop (2 * (la + lb) + 1) a b [(0, la, 0, lb)] [] of
           None \<Rightarrow> None
         | Some matching_blocks \<Rightarrow>
             (case fold merge_adjacent (sort_blocks matching_blocks) ((0, 0, 0), []) of
                ((i1, j1, k1), non_adjacent) \<Rightarrow>
                  Some ((if k1 \<noteq> 0 then non_adjacent @ [(i1, j1, k1)] else non_adjacent)
                        @ [(la, lb, 0)])))"

datatype opcode_tag = Replace | Delete | Insert | Equal

definition opcode_step ::
  "nat \<times> nat \<times> nat \<Rightarrow> (nat \<times> nat) \<times> (opcode_tag \<times> nat \<times> nat \<times> nat \<times> nat) list
     \<Rightarrow> (nat \<times> nat) \<times> (opcode_tag \<times> nat \<times> nat \<times> nat \<times> nat) list" where
  "opcode_step blk st =
     (case (blk, fst st) of
        ((ai, bj, sz), (i, j)) \<Rightarrow>
          (let answer1 =
                 (if i < ai \<and> j < bj then snd st @ [(Replace, i, ai, j, bj)]
                  else if i < ai then snd st @ [(Delete, i, ai, j, bj)]
                  else if j < bj then snd st @ [(Insert, i, ai, j, bj)]
                  else snd st)
           in ((ai + sz, bj + sz),
               if sz \<noteq> 0 then answer1 @ [(Equal, ai, ai + sz, bj, bj + sz)] else answer1)))"

definition get_opcodes ::
  "'a list \<Rightarrow> 'a list \<Rightarrow> (opcode_tag \<times> nat \<times> nat \<times> nat \<times> nat) list option" where
  "get_opcodes a b =
     map_option (\<lambda>blocks. snd (fold opcode_step blocks ((0, 0), []))) (get_matching_blocks a b)"

text \<open>\<open>Differ._dump\<close>: the tag, a blank, the line.\<close>

definition dump :: "char \<Rightarrow> string list \<Rightarrow> nat \<Rightarrow> nat \<Rightarrow> string list" where
  "dump tg x lo hi = map (\<lambda>i. tg # CHR '' '' # x ! i) [lo..<hi]"

text \<open>
  \<open>Differ.compare\<close>. A \<open>replace\<close> block goes through \<open>_fancy_replace\<close>, which pairs
  similar lines by floating-point ratios and adds \<open>?\<close> lines; that part is outside the
  model, and the result is \<open>None\<close> when a \<open>replace\<close> block occurs.
\<close>

fun dump_opcodes ::
  "string list \<Rightarrow> string list \<Rightarrow> (opcode_tag \<times> nat \<times> nat \<times> nat \<times> nat) list \<Rightarrow> string list option" where
  "dump_opcodes a b [] = Some []"
| "dump_opcodes a b ((tg, alo, ahi, blo, bhi) # ops) =
     (case tg of
        Replace \<Rightarrow> None
      | Delete \<Rightarrow> map_option ((@) (dump CHR ''-'' a alo ahi)) (dump_opcodes a b ops)
      | Insert \<Rightarrow> map_option ((@) (dump CHR ''+'' b blo bhi)) (dump_opcodes a b ops)
      | Equal \<Rightarrow> map_option ((@) (dump CHR '' '' a alo ahi)) (dump_opcodes a b ops))"

definition differ_compare :: "string list \<Rightarrow> string list \<Rightarrow> string list option" where
  "differ_compare a b =
     (case get_opcodes a b of None \<Rightarrow> None | Some ops \<Rightarrow> dump_opcodes a b ops)"

subsection \<open>The comparison graph\<close>

text \<open>
  \<open>wrap_and_print\<close>: the first wrapped line carries the label, the others an indent
  of the label's width.
\<close>

definition wrap_and_print ::
  "(nat \<Rightarrow> string \<Rightarrow> string list) \<Rightarrow> label \<Rightarrow> string \<Rightarrow> report_line list" where
  "wrap_and_print wrap lbl text =
     (case wrap 80 text of
        [] \<Rightarrow> []
      | line # lines \<Rightarrow> Labelled lbl line # map (Indented lbl) lines)"

text \<open>
  The loop \<open>for entry in diff\<close>. \<open>entry[0]\<close> is a string of one character and raises
  \<open>IndexError\<close> on an empty entry (\<open>None\<close>); the first branch compares it with a string
  of two blanks, as the source does.
\<close>

fun graph_entries ::
  "(nat \<Rightarrow> string \<Rightarrow> string list) \<Rightarrow> nat \<Rightarrow> string list \<Rightarrow> report_line list option" where
  "graph_entries wrap line_num [] = Some []"
| "graph_entries wrap line_num (entry # diff) =
     (case entry of
        [] \<Rightarrow> None
      | c # cs \<Rightarrow>
          (let status = [c];
               sentence = drop 2 entry;
               out =
                 (if status = ''  ''
                  then (if line_num mod 15 = 0 then [Verified line_num] else [])
                  else if status = ''-''
                  then [Dashes CHR ''-''] @ wrap_and_print wrap (Missing_in_xml line_num) sentence
                       @ [Dashes CHR ''-'']
                  else if status = ''+''
                  then [Dashes CHR ''+''] @ wrap_and_print wrap (Extra_in_xml line_num) sentence
                       @ [Dashes CHR ''+'']
                  else [])
           in map_option ((@) out) (graph_entries wrap (line_num + 1) diff)))"

text \<open>
  \<open>draw_comparison_graph\<close>, with \<open>Differ().compare\<close> as the parameter \<open>compare\<close>
  (\<open>differ_compare\<close> above is the instance the examples use).
\<close>

definition draw_comparison_graph ::
  "(string list \<Rightarrow> string list \<Rightarrow> string list option) \<Rightarrow> (nat \<Rightarrow> string \<Rightarrow> string list)
     \<Rightarrow> string list \<Rightarrow> string list \<Rightarrow> report_line list option" where
  "draw_comparison_graph compare wrap pdf_sent xml_sent =
     (case compare pdf_sent xml_sent of
        None \<Rightarrow> None
      | Some diff \<Rightarrow>
          map_option (\<lambda>body. [Border, Scan_title, Border] @ body @ [Border])
            (graph_entries wrap 1 diff))"

section \<open>Notions of the properties, and sample inputs\<close>

text \<open>An article that lacks \<open>article-type\<close> at the root and another one three levels down.\<close>

definition sample_articles :: element where
  "sample_articles =
     Element ''article'' [] None None
       [Element ''front'' [] None None
          [Element ''article'' [(''article-type'', ''research'')] (Some ''typed'') None [] (Some 3)]
          (Some 2),
        Element ''body'' [] None None
          [Element ''sec'' [] None None
             [Element ''article'' [(''id'', ''a2'')] (Some ''nested'') None [] (Some 6)]
             (Some 5)]
          (Some 4)]
       (Some 1)"

text \<open>A display formula without \<open>id\<close>.\<close>

definition sample_formula :: element where
  "sample_formula =
     Element ''sec'' [] None None
       [Element ''disp-formula'' [] (Some ''E = mc^2'') None [] (Some 2)]
       (Some 1)"

text \<open>
  A figure whose graphic carries \<open>xlink:href\<close>. The parser stores an attribute with
  a namespace prefix under the namespace's URI in braces followed by the local name.
\<close>

definition sample_graphic :: element where
  "sample_graphic =
     Element ''fig'' [(''id'', ''f1''), (''position'', ''float'')] None None
       [Element ''graphic'' [(''{http://www.w3.org/1999/xlink}href'', ''fig1.png'')] None None []
          (Some 2)]
       (Some 1)"

text \<open>A childless \<open>article-meta\<close> beside a \<open>book-meta\<close>, and an \<open>article-meta\<close> with a child.\<close>

definition sample_empty_meta :: element where
  "sample_empty_meta =
     Element ''book'' [] None None
       [Element ''front'' [] None None
          [Element ''article-meta'' [] None None [] (Some 3),
           Element ''book-meta'' [] None None
             [Element ''book-id'' [(''pub-id-type'', ''doi'')] (Some ''10.1/x'') None [] (Some 5)]
             (Some 4)]
          (Some 2)]
       (Some 1)"

definition sample_filled_meta :: element where
  "sample_filled_meta =
     Element ''article'' [] None None
       [Element ''front'' [] None None
          [Element ''article-meta'' [] None None
             [Element ''title-group'' [] None None [] (Some 4)]
             (Some 3)]
          (Some 2)]
       (Some 1)"

text \<open>A paragraph with two soft hyphens that share the one-letter fragment between them.\<close>

definition sample_hyphens :: element where
  "sample_hyphens =
     Element ''article'' [(''article-type'', ''report'')] None None
       [Element ''body'' [] None None
          [Element ''p'' [] (Some ''Counts cover pre- K- 12 enrollment.'') None [] (Some 3)]
          (Some 2)]
       (Some 1)"

text \<open>The path of the fixed copy, as derived from the source's file name.\<close>

definition fixed_path :: "path \<Rightarrow> path" where
  "fixed_path p = [''files'', ''audited'', path_stem p @ ''_FIXED'' @ path_suffix p]"

text \<open>A file system that holds one document, a parser that knows it, and a serialiser.\<close>

definition sample_fs :: file_system where
  "sample_fs = \<lparr>files = [[''files'', ''report_JATS.xml''] \<mapsto> ''<article>...</article>''],
                 directories = {[''files'']}\<rparr>"

definition sample_parse :: "string \<Rightarrow> element option" where
  "sample_parse data = (if data = ''<article>...</article>'' then Some sample_hyphens else None)"

text \<open>A document on which no rule of the fixer fires.\<close>

definition sample_clean :: element where
  "sample_clean =
     Element ''article'' [] None None
       [Element ''p'' [] (Some ''A multi-word line.'') None [] (Some 2)] (Some 1)"

definition sample_write :: "element \<Rightarrow> string" where
  "sample_write tree = ''<'' @ tag tree @ ''/>''"


text \<open>What the properties speak of: summary lines, and the lines of a discrepancy block.\<close>

fun is_summary :: "report_line \<Rightarrow> bool" where
  "is_summary (Summary found_count n pct) = True"
| "is_summary other = False"

fun is_verified :: "report_line \<Rightarrow> bool" where
  "is_verified (Verified n) = True"
| "is_verified other = False"

fun is_discrepancy_line :: "report_line \<Rightarrow> bool" where
  "is_discrepancy_line (Dashes c) = True"
| "is_discrepancy_line (Labelled l t) = True"
| "is_discrepancy_line (Indented l t) = True"
| "is_discrepancy_line other = False"

text \<open>
  The block that the report shows for the diff entry numbered \<open>n\<close> when the entry
  is PDF-only (\<open>-\<close>) or XML-only (\<open>+\<close>); no line of such a block for any other
  entry.
\<close>

definition discrepancy_block ::
  "(nat \<Rightarrow> string \<Rightarrow> string list) \<Rightarrow> nat \<times> string \<Rightarrow> report_line list" where
  "discrepancy_block wrap numbered =
     (case numbered of
        (n, entry) \<Rightarrow>
          if take 1 entry = ''-''
          then Dashes CHR ''-'' # wrap_and_print wrap (Missing_in_xml n) (drop 2 entry) @ [Dashes CHR ''-'']
          else if take 1 entry = ''+''
          then Dashes CHR ''+'' # wrap_and_print wrap (Extra_in_xml n) (drop 2 entry) @ [Dashes CHR ''+'']
          else [])"

text \<open>
  The containment test in the words of the specification, but per unit: the first 60
  characters of the lower-cased PDF unit are a substring of some lower-cased XML unit.
\<close>

definition unit_found :: "string list \<Rightarrow> string \<Rightarrow> bool" where
  "unit_found xml_pool para = (\<exists>x \<in> set xml_pool. sublist (take 60 (lower para)) (lower x))"

text \<open>A paragraph with inline markup, under a section.\<close>

definition sample_inline :: element where
  "sample_inline =
     Element ''sec'' [] None None
       [Element ''p'' [] (Some ''See '') None
          [Element ''italic'' [] (Some ''the annual report'') (Some '' for details.'') [] (Some 3)]
          (Some 2)]
       (Some 1)"


text \<open>Two XML units, and two PDF units that each run across the boundary between them.\<close>

definition sample_pool :: "string list" where
  "sample_pool = [''The quick brown fox jumps'', ''over the lazy dog today.'']"

definition sample_across :: string where
  "sample_across = ''Fox jumpsover the lazy dog''"

definition sample_across_blank :: string where
  "sample_across_blank = ''Fox jumps over the lazy dog''"

section \<open>Properties of the auditor\<close>

text \<open>
  C1. Exhaustiveness asks for as many violation records per rule as there are nodes
  that fail the rule. The audit of a document with one display formula without \<open>id\<close>
  prints two records for that one node (the registry row and the separate formula
  check) and counts two issues. The audit of a figure whose graphic carries
  \<open>xlink:href\<close> prints a record for that attribute all the same: the registry looks
  for the key \<open>xlink:href\<close>, which a parsed element never has. For the two articles
  without \<open>article-type\<close> in \<open>sample_articles\<close>, at the root and three levels down,
  the audit prints exactly one record each.
\<close>

theorem audit_records_diverge:
  "run_aem_audit ''report_JATS.xml'' (Some sample_formula)
     = Some \<lparr>violation_count = 2,
             printed =
               [print_aem_violation ''disp-formula'' (LineNum 2) ''E = mc^2''
                  (missing_attr_msg ''id'') (add_attr_msg ''id'' ''Math Equations'') ''Math Equations'',
                print_aem_violation ''disp-formula'' (LineNum 2) ''E = mc^2''
                  ''Math Equation missing ID''
                  (''Spec Rule: '' @ [CHR 0x27] @ ''id'' @ [CHR 0x27]
                     @ '' is mandatory for linking to <xref> pointers.'')
                  ''Math Equations'']\<rparr>
   \<and> run_aem_audit ''report_JATS.xml'' (Some sample_graphic)
     = Some \<lparr>violation_count = 1,
             printed =
               [print_aem_violation ''graphic'' (LineNum 2) []
                  (missing_attr_msg ''xlink:href'') (add_attr_msg ''xlink:href'' ''Figures'')
                  ''Figures'']\<rparr>
   \<and> run_aem_audit ''report_JATS.xml'' (Some sample_articles)
     = Some \<lparr>violation_count = 2,
             printed =
               [print_aem_violation ''article'' (LineNum 1) ''typednested''
                  (missing_attr_msg ''article-type'') (add_attr_msg ''article-type'' ''Article-type'')
                  ''Article-type'',
                print_aem_violation ''article'' (LineNum 6) ''nested''
                  (missing_attr_msg ''article-type'') (add_attr_msg ''article-type'' ''Article-type'')
                  ''Article-type'']\<rparr>"
  by code_simp

section \<open>Properties of the auto-fixer\<close>

lemma find_append:
  "List.find Q (xs @ ys) = (case List.find Q xs of None \<Rightarrow> List.find Q ys | Some x \<Rightarrow> Some x)"
  by (induction xs) auto

lemma iter_insert_nces_id:
  "iter (insert_nces_id e) =
     insert_nces_id e # new_element ''article-id'' [(''pub-id-type'', ''nces'')] ''2021-126''
       # concat (map iter (children e))"
  by (cases e) (simp add: insert_nces_id_def set_children_def new_element_def)

lemma tag_insert_nces_id: "tag (insert_nces_id e) = tag e"
  by (simp add: insert_nces_id_def set_children_def)

lemma update_first_no_new:
  assumes f: "\<And>e. tag (f e) = tag e" "\<And>e. iter (f e) = f e # n # concat (map iter (children e))"
    and n: "tag n \<noteq> T"
  shows "List.find (\<lambda>e. tag e = T) (concat (map iter cs)) = None \<Longrightarrow>
         List.find (\<lambda>e. tag e = T) (concat (map iter (update_first P f cs))) = None"
  using f
proof (induction P f cs rule: update_first.induct)
  case (1 P f)
  then show ?case by simp
next
  case (2 P f tg ats tx ta cs ln rest)
  note f' = "2.prems"(2,3)
  from "2.prems"(1) have none: "tg \<noteq> T" "List.find (\<lambda>e. tag e = T) (concat (map iter cs)) = None"
    "List.find (\<lambda>e. tag e = T) (concat (map iter rest)) = None"
    by (auto simp: find_append split: option.splits if_splits)
  show ?case
  proof (cases "P (Element tg ats tx ta cs ln)")
    case True
    then show ?thesis using none n f' by (simp add: find_append)
  next
    case notP: False
    show ?thesis
    proof (cases "list_ex P (concat (map iter cs))")
      case True
      then show ?thesis using notP none "2.IH"(1)[OF notP True none(2) f']
        by (simp add: find_append)
    next
      case False
      then show ?thesis using notP none "2.IH"(2)[OF notP False none(3) f']
        by (simp add: find_append)
    qed
  qed
qed

lemma update_first_keeps_found:
  assumes f: "\<And>e. tag (f e) = tag e" "\<And>e. iter (f e) = f e # n # concat (map iter (children e))"
    and n: "tag n \<noteq> T" and P: "\<And>e. P e \<Longrightarrow> tag e \<noteq> T"
  shows "List.find (\<lambda>e. tag e = T) (concat (map iter cs)) = Some am \<Longrightarrow> children am = [] \<Longrightarrow>
         List.find (\<lambda>e. tag e = T) (concat (map iter (update_first P f cs))) = Some am"
  using f P
proof (induction P f cs rule: update_first.induct)
  case (1 P f)
  then show ?case by simp
next
  case (2 P f tg ats tx ta cs ln rest)
  let ?e = "Element tg ats tx ta cs ln"
  note f' = "2.prems"(3,4) and P' = "2.prems"(5)
  show ?case
  proof (cases "P ?e")
    case True
    then have "tg \<noteq> T" using P' by fastforce
    then show ?thesis using True "2.prems"(1) n f'
      by (simp add: find_append)
  next
    case notP: False
    show ?thesis
    proof (cases "list_ex P (concat (map iter cs))")
      case True
      then have "cs \<noteq> []" by auto
      have "tg \<noteq> T"
      proof
        assume "tg = T"
        then have "am = ?e" using "2.prems"(1) by simp
        then show False using "2.prems"(2) \<open>cs \<noteq> []\<close> by simp
      qed
      show ?thesis
      proof (cases "List.find (\<lambda>e. tag e = T) (concat (map iter cs))")
        case None
        then show ?thesis using notP True \<open>tg \<noteq> T\<close> "2.prems"(1)
            update_first_no_new[OF f' n None, of P]
          by (simp add: find_append)
      next
        case (Some a)
        then have "a = am" using \<open>tg \<noteq> T\<close> "2.prems"(1) by (simp add: find_append)
        then show ?thesis
          using notP True \<open>tg \<noteq> T\<close> Some "2.IH"(1)[OF notP True _ "2.prems"(2) f' P']
          by (simp add: find_append)
      qed
    next
      case False
      show ?thesis
      proof (cases "tg = T")
        case True
        with "2.prems"(1) have am: "am = ?e" by simp
        show ?thesis unfolding am using notP False True by simp
      next
        case neq: False
        show ?thesis
        proof (cases "List.find (\<lambda>e. tag e = T) (concat (map iter cs))")
          case None
          then show ?thesis
            using notP False neq "2.prems"(1) "2.IH"(2)[OF notP False _ "2.prems"(2) f' P']
            by (simp add: find_append)
        next
          case (Some a)
          then show ?thesis using notP False neq "2.prems"(1)
            by (simp add: find_append)
        qed
      qed
    qed
  qed
qed

lemma iter_head: "\<exists>es. iter e = e # es"
  by (cases e) simp

lemma find_iter_self: "P e \<Longrightarrow> List.find P (iter e @ xs) = Some e"
  using iter_head [of e] by auto

lemma list_ex_find: "list_ex P xs \<longleftrightarrow> List.find P xs \<noteq> None"
  by (induction xs) auto

lemma update_first_hits_found:
  assumes "\<And>e e'. tag e = tag e' \<Longrightarrow> P e = P e'" "\<And>e. tag (f e) = tag e"
  shows "List.find P (concat (map iter cs)) = Some x \<Longrightarrow>
         List.find P (concat (map iter (update_first P f cs))) = Some (f x)"
  using assms
proof (induction P f cs rule: update_first.induct)
  case (1 P f)
  from "1.prems"(1) show ?case by simp
next
  case (2 P f tg ats tx ta cs ln rest)
  let ?e = "Element tg ats tx ta cs ln"
  note tagP = "2.prems"(2) and tagf = "2.prems"(3)
  show ?case
  proof (cases "P ?e")
    case True
    then have "x = ?e" using "2.prems"(1) by simp
    moreover have "P (f ?e)" using True tagP [of "f ?e" ?e] tagf by simp
    ultimately show ?thesis using True find_iter_self [of P "f ?e"] by simp
  next
    case notP: False
    then have notP': "\<not> P (Element tg ats tx ta cs' ln)" for cs'
      using tagP [of ?e "Element tg ats tx ta cs' ln"] by simp
    show ?thesis
    proof (cases "list_ex P (concat (map iter cs))")
      case True
      then obtain y where y: "List.find P (concat (map iter cs)) = Some y"
        by (auto simp: list_ex_find)
      then have "y = x" using notP "2.prems"(1) by (simp add: find_append)
      then show ?thesis using notP notP' True y "2.IH"(1)[OF notP True _ tagP tagf]
        by (simp add: find_append)
    next
      case False
      then have none: "List.find P (concat (map iter cs)) = None"
        by (simp add: list_ex_find)
      then have "List.find P (concat (map iter rest)) = Some x"
        using notP "2.prems"(1) by (simp add: find_append)
      then show ?thesis using notP False none "2.IH"(2)[OF notP False _ tagP tagf]
        by (simp add: find_append)
    qed
  qed
qed

lemma find_descendant_tag: "find_descendant tg root = Some e \<Longrightarrow> tag e = tg"
  by (auto simp: find_descendant_def find_Some_iff)

lemma children_set_children: "children (set_children cs e) = cs"
  by (simp add: set_children_def)

text \<open>
  C10. The front-matter check takes \<open>article-meta\<close> as its target only when that
  element has a child. When the first \<open>article-meta\<close> has none, its truth value is
  false and the lookup falls through to \<open>book-meta\<close> (or to nothing): the childless
  \<open>article-meta\<close> is never the target and is still there, unchanged, after the check,
  and a \<open>book-meta\<close> without an NCES identifier is the one that receives it.
\<close>

theorem article_meta_needs_children:
  "(\<forall>am. find_descendant ''article-meta'' root = Some am \<longrightarrow>
      (children am \<noteq> [] \<longrightarrow> find_article_meta root = Some am)
      \<and> (children am = [] \<longrightarrow>
            find_article_meta root = find_descendant ''book-meta'' root
            \<and> find_article_meta root \<noteq> Some am
            \<and> find_descendant ''article-meta'' (fst (front_matter_check root st)) = Some am
            \<and> (\<forall>bm. find_descendant ''book-meta'' root = Some bm \<longrightarrow> \<not> has_nces_id bm \<longrightarrow>
                  find_descendant ''book-meta'' (fst (front_matter_check root st))
                    = Some (insert_nces_id bm))))
   \<and> (\<forall>m. find_article_meta root = Some m \<longrightarrow> tag m = ''article-meta'' \<longrightarrow> children m \<noteq> [])"
proof (intro conjI allI impI)
  fix am
  assume "find_descendant ''article-meta'' root = Some am" "children am \<noteq> []"
  then show "find_article_meta root = Some am"
    by (simp add: find_article_meta_def element_bool_def)
next
  fix am
  assume am: "find_descendant ''article-meta'' root = Some am" "children am = []"
  then show eq: "find_article_meta root = find_descendant ''book-meta'' root"
    by (simp add: find_article_meta_def element_bool_def)
  have "tag am = ''article-meta''" using am(1) by (rule find_descendant_tag)
  then show "find_article_meta root \<noteq> Some am"
    using eq find_descendant_tag [of "''book-meta''" root am] by auto
  show "find_descendant ''article-meta'' (fst (front_matter_check root st)) = Some am"
  proof (cases "find_descendant ''book-meta'' root")
    case None
    then show ?thesis using am(1) eq by (simp add: front_matter_check_def)
  next
    case (Some bm)
    then have bm: "tag bm = ''book-meta''" by (rule find_descendant_tag)
    have "List.find (\<lambda>e. tag e = ''article-meta'')
            (concat (map iter (update_first (\<lambda>e. tag e = ''book-meta'') insert_nces_id (children root))))
          = Some am"
    proof (rule update_first_keeps_found
        [where n = "new_element ''article-id'' [(''pub-id-type'', ''nces'')] ''2021-126''"])
      show "\<And>e. tag (insert_nces_id e) = tag e" by (rule tag_insert_nces_id)
      show "\<And>e. iter (insert_nces_id e) = insert_nces_id e
              # new_element ''article-id'' [(''pub-id-type'', ''nces'')] ''2021-126''
              # concat (map iter (children e))"
        by (rule iter_insert_nces_id)
      show "tag (new_element ''article-id'' [(''pub-id-type'', ''nces'')] ''2021-126'') \<noteq> ''article-meta''"
        by (simp add: new_element_def)
      show "\<And>e. tag e = ''book-meta'' \<Longrightarrow> tag e \<noteq> ''article-meta''" by simp
      show "List.find (\<lambda>e. tag e = ''article-meta'') (concat (map iter (children root))) = Some am"
        using am(1) by (simp add: find_descendant_def descendants_def)
      show "children am = []" by (rule am(2))
    qed
    then show ?thesis using am(1) eq Some bm
      by (simp add: front_matter_check_def find_descendant_def descendants_def
            children_set_children)
  qed
  fix bm
  assume bm: "find_descendant ''book-meta'' root = Some bm" "\<not> has_nces_id bm"
  have "List.find (\<lambda>e. tag e = ''book-meta'')
          (concat (map iter (update_first (\<lambda>e. tag e = ''book-meta'') insert_nces_id (children root))))
        = Some (insert_nces_id bm)"
    using bm(1)
    by (intro update_first_hits_found)
       (simp_all add: tag_insert_nces_id find_descendant_def descendants_def)
  then show "find_descendant ''book-meta'' (fst (front_matter_check root st)) = Some (insert_nces_id bm)"
    using bm eq find_descendant_tag [OF bm(1)]
    by (simp add: front_matter_check_def find_descendant_def descendants_def children_set_children)
next
  fix m
  assume m: "find_article_meta root = Some m" "tag m = ''article-meta''"
  show "children m \<noteq> []"
  proof (cases "find_descendant ''article-meta'' root")
    case None
    then show ?thesis using m find_descendant_tag [of "''book-meta''" root m]
      by (simp add: find_article_meta_def)
  next
    case (Some am)
    then show ?thesis using m find_descendant_tag [of "''book-meta''" root m]
      by (auto simp: find_article_meta_def element_bool_def split: if_splits)
  qed
qed

lemmas front_defs = find_article_meta_def find_descendant_def descendants_def element_bool_def
  front_matter_check_def has_nces_id_def insert_nces_id_def set_children_def new_element_def
  count_and_print_def print_aem_violation_def

lemma empty_meta_found:
  "find_descendant ''article-meta'' sample_empty_meta = Some (Element ''article-meta'' [] None None [] (Some 3))"
  by (simp add: sample_empty_meta_def front_defs)

lemma empty_meta_book:
  "find_descendant ''book-meta'' sample_empty_meta
     = Some (Element ''book-meta'' [] None None
               [Element ''book-id'' [(''pub-id-type'', ''doi'')] (Some ''10.1/x'') None [] (Some 5)]
               (Some 4))"
  by (simp add: sample_empty_meta_def front_defs)

lemma filled_meta_found:
  "find_descendant ''article-meta'' sample_filled_meta
     = Some (Element ''article-meta'' [] None None [Element ''title-group'' [] None None [] (Some 4)] (Some 3))"
  by (simp add: sample_filled_meta_def front_defs)

theorem article_meta_needs_children_witness:
  "find_descendant ''article-meta'' sample_empty_meta
     = Some (Element ''article-meta'' [] None None [] (Some 3))
   \<and> find_article_meta sample_empty_meta = find_descendant ''book-meta'' sample_empty_meta
   \<and> find_descendant ''article-meta''
        (fst (front_matter_check sample_empty_meta
                \<lparr>violation_count = 0, printed = [], xml_full_text_list = []\<rparr>))
       = Some (Element ''article-meta'' [] None None [] (Some 3))
   \<and> find_descendant ''book-meta''
        (fst (front_matter_check sample_empty_meta
                \<lparr>violation_count = 0, printed = [], xml_full_text_list = []\<rparr>))
       = Some (Element ''book-meta'' [] None None
                 [Element ''article-id'' [(''pub-id-type'', ''nces'')] (Some ''2021-126'') None [] None,
                  Element ''book-id'' [(''pub-id-type'', ''doi'')] (Some ''10.1/x'') None [] (Some 5)]
                 (Some 4))
   \<and> find_article_meta sample_filled_meta
       = Some (Element ''article-meta'' [] None None
                 [Element ''title-group'' [] None None [] (Some 4)] (Some 3))
   \<and> children (Element ''article-meta'' [] None None
                 [Element ''title-group'' [] None None [] (Some 4)] (Some 3)) \<noteq> []"
  using article_meta_needs_children
          [of sample_empty_meta "\<lparr>violation_count = 0, printed = [], xml_full_text_list = []\<rparr>"]
        article_meta_needs_children
          [of sample_filled_meta "\<lparr>violation_count = 0, printed = [], xml_full_text_list = []\<rparr>"]
        empty_meta_found filled_meta_found empty_meta_book
  by (simp add: has_nces_id_def insert_nces_id_def set_children_def new_element_def)

lemmas fix_defs = fix_tree_def front_matter_check_def find_article_meta_def find_descendant_def
  descendants_def fix_elem_def publisher_loc_fix_def uniform_bold_fix_def soft_hyphen_fix_def
  alt_text_note_def set_children_def set_text_def new_element_def line_of_def full_text_of_def
  strip_def if_text_def is_space_def is_word_def code_point_def count_and_print_def
  print_aem_violation_def lower_def lower_char_def

lemma sample_hyphens_first_pass:
  "fst (fix_tree sample_hyphens) =
     Element ''article'' [(''article-type'', ''report'')] None None
       [Element ''body'' [] None None
          [Element ''p'' [] (Some ''Counts cover preK- 12 enrollment.'') None [] (Some 3)]
          (Some 2)]
       (Some 1)"
  by (simp add: sample_hyphens_def fix_defs Let_def)

lemma sample_hyphens_first_count: "violation_count (snd (fix_tree sample_hyphens)) = 1"
  by (simp add: sample_hyphens_def fix_defs Let_def)

text \<open>
  C2. Idempotence asks that a second run of the fixer on the output of a first run
  applies no fix. On \<open>sample_hyphens\<close> the first run applies one fix and the second
  run, on the first run's tree, applies one more; only the third run applies none.
  The pattern consumes the word character after the white space, so the hyphen that
  follows the one-letter fragment is not seen in the same pass.
\<close>

theorem fixer_second_pass_fixes_again:
  "violation_count (snd (fix_tree sample_hyphens)) = 1
   \<and> violation_count (snd (fix_tree (fst (fix_tree sample_hyphens)))) = 1
   \<and> violation_count (snd (fix_tree (fst (fix_tree (fst (fix_tree sample_hyphens)))))) = 0"
proof -
  have second: "fst (fix_tree (fst (fix_tree sample_hyphens))) =
     Element ''article'' [(''article-type'', ''report'')] None None
       [Element ''body'' [] None None
          [Element ''p'' [] (Some ''Counts cover preK12 enrollment.'') None [] (Some 3)]
          (Some 2)]
       (Some 1)"
    unfolding sample_hyphens_first_pass by (simp add: fix_defs Let_def)
  have "violation_count (snd (fix_tree (fst (fix_tree sample_hyphens)))) = 1"
    unfolding sample_hyphens_first_pass by (simp add: fix_defs Let_def)
  moreover have "violation_count (snd (fix_tree (fst (fix_tree (fst (fix_tree sample_hyphens)))))) = 0"
    unfolding second by (simp add: fix_defs Let_def)
  ultimately show ?thesis using sample_hyphens_first_count by simp
qed

text \<open>
  C6. Soft-hyphen normalisation on the two texts of the specification, and on a text
  with two soft hyphens around a one-letter fragment: \<open>exam- ple\<close> becomes \<open>example\<close>,
  \<open>multi-word\<close> is unchanged, but \<open>a- b- c\<close> becomes \<open>ab- c\<close>, in which a hyphen followed
  by white space still stands between two word characters; a second application is
  needed to join it. The fixer leaves that text on the element.
\<close>

theorem soft_hyphen_chain_survives:
  "re_sub_hyphen ''exam- ple'' = ''example''
   \<and> re_sub_hyphen ''multi-word'' = ''multi-word''
   \<and> re_sub_hyphen ''a- b- c'' = ''ab- c''
   \<and> re_sub_hyphen ''ab- c'' = ''abc''
   \<and> fst (fix_iter (Element ''p'' [] (Some ''a- b- c'') None [] (Some 7)) st)
       = Element ''p'' [] (Some ''ab- c'') None [] (Some 7)"
  by (simp add: fix_defs Let_def)


lemma stem_suffix: "path_stem p @ path_suffix p = path_name p"
  by (simp add: path_stem_def path_suffix_def Let_def)

lemma fixed_path_distinct: "fixed_path p \<noteq> p"
proof
  assume eq: "fixed_path p = p"
  then have "p \<noteq> []" by (auto simp: fixed_path_def)
  from eq have "last p = path_stem p @ ''_FIXED'' @ path_suffix p"
    by (metis fixed_path_def last.simps list.distinct(1))
  with \<open>p \<noteq> []\<close> have "path_name p = path_stem p @ ''_FIXED'' @ path_suffix p"
    by (simp add: path_name_def)
  then have "length (path_name p) = length (path_stem p) + 6 + length (path_suffix p)" by simp
  moreover have "length (path_name p) = length (path_stem p) + length (path_suffix p)"
    using stem_suffix [of p] by (metis length_append)
  ultimately show False by simp
qed

text \<open>
  C8. After a complete pass (the source file exists and parses), a document is written
  if and only if the fix count is positive; it is written to \<open>fixed_path\<close> of the
  source path, which differs from the source path, and the source file is unchanged.
  With a fix count of zero nothing is written and the file system is as before.
\<close>

theorem fixed_copy_written_iff_fixes:
  assumes "files fs xml_path = Some data" and "xml_parse data = Some root"
  shows "case run_aem_fixer xml_parse xml_write xml_path fs of (fs', written, result) \<Rightarrow>
           result = Some (snd (fix_tree root))
           \<and> (0 < violation_count (snd (fix_tree root)) \<longrightarrow>
                 written = [fixed_path xml_path]
                 \<and> files fs' = (files fs)(fixed_path xml_path \<mapsto> xml_write (fst (fix_tree root))))
           \<and> (violation_count (snd (fix_tree root)) = 0 \<longrightarrow> written = [] \<and> fs' = fs)
           \<and> fixed_path xml_path \<noteq> xml_path
           \<and> files fs' xml_path = files fs xml_path"
  using assms fixed_path_distinct [of xml_path]
  by (auto simp: run_aem_fixer_def save_fixed_copy_def fixed_path_def mkdir_parents_def
        Let_def split: prod.splits)

lemma sample_clean_count: "violation_count (snd (fix_tree sample_clean)) = 0"
  by (simp add: sample_clean_def fix_defs Let_def)

lemma sample_paths:
  "fixed_path [''files'', ''report_JATS.xml''] = [''files'', ''audited'', ''report_JATS_FIXED.xml'']"
  by (simp add: fixed_path_def path_stem_def path_suffix_def path_name_def rfind_def Let_def)

theorem fixed_copy_written_iff_fixes_witness:
  "files sample_fs [''files'', ''report_JATS.xml''] = Some ''<article>...</article>''
   \<and> sample_parse ''<article>...</article>'' = Some sample_hyphens
   \<and> 0 < violation_count (snd (fix_tree sample_hyphens))
   \<and> (case run_aem_fixer sample_parse sample_write [''files'', ''report_JATS.xml''] sample_fs of
         (fs', written, result) \<Rightarrow>
           written = [[''files'', ''audited'', ''report_JATS_FIXED.xml'']]
           \<and> files fs' [''files'', ''audited'', ''report_JATS_FIXED.xml''] = Some ''<article/>''
           \<and> files fs' [''files'', ''report_JATS.xml''] = Some ''<article>...</article>'')
   \<and> violation_count (snd (fix_tree sample_clean)) = 0
   \<and> (case run_aem_fixer (\<lambda>data. Some sample_clean) sample_write [''files'', ''report_JATS.xml''] sample_fs of
         (fs', written, result) \<Rightarrow> written = [] \<and> fs' = sample_fs)"
proof -
  have f: "files sample_fs [''files'', ''report_JATS.xml''] = Some ''<article>...</article>''"
    by (simp add: sample_fs_def)
  have p: "sample_parse ''<article>...</article>'' = Some sample_hyphens"
    by (simp add: sample_parse_def)
  have w: "sample_write (fst (fix_tree sample_hyphens)) = ''<article/>''"
    by (simp add: sample_hyphens_first_pass sample_write_def)
  show ?thesis
    using fixed_copy_written_iff_fixes
            [where fs = sample_fs and xml_path = "[''files'', ''report_JATS.xml'']"
               and data = "''<article>...</article>''" and xml_parse = sample_parse
               and root = sample_hyphens and xml_write = sample_write]
          fixed_copy_written_iff_fixes
            [where fs = sample_fs and xml_path = "[''files'', ''report_JATS.xml'']"
               and data = "''<article>...</article>''" and xml_parse = "\<lambda>data. Some sample_clean"
               and root = sample_clean and xml_write = sample_write]
          f p w sample_hyphens_first_count sample_clean_count
    by (auto simp: sample_paths split: prod.splits)
qed

section \<open>Properties of the reconciliation\<close>












lemma contains_sublist: "contains needle hay \<longleftrightarrow> sublist needle hay"
  by (induction hay) (auto simp: sublist_Cons_right)

lemma para_match_sublist:
  "para_match (map lower xml_pool) para
     \<longleftrightarrow> (\<exists>x \<in> set xml_pool. sublist (take 60 (lower para)) (lower x))"
  by (auto simp: para_match_def list_ex_iff contains_sublist)

lemma fold_draw_para:
  "fold (draw_para wrap pool) paras st =
     (fst st + length (filter (para_match pool) paras),
      snd st @ concat (map (\<lambda>p. table_rows (status_text_of (para_match pool p)) 0 (wrap 94 p)
                               @ [Separator]) paras))"
  by (induction paras arbitrary: st) (simp_all add: draw_para_def Let_def)

lemma draw_table_report:
  "draw_table wrap pdf_paras xml_pool =
     [Border, Table_header, Border]
     @ concat (map (\<lambda>p. table_rows (status_text_of (para_match (map lower xml_pool) p)) 0 (wrap 94 p)
                          @ [Separator]) pdf_paras)
     @ [Border,
        Summary (length (filter (para_match (map lower xml_pool)) pdf_paras)) (length pdf_paras)
          (if pdf_paras \<noteq> []
           then Percent_of (length (filter (para_match (map lower xml_pool)) pdf_paras)) (length pdf_paras)
           else Percent_zero),
        Border]"
  by (simp add: draw_table_def fold_draw_para Let_def)

lemma table_rows_no_summary: "\<not> list_ex is_summary (table_rows status i lines)"
  by (induction lines arbitrary: i) auto

text \<open>
  C3, as the code has it. In containment mode a PDF unit is shown as \<open>FOUND\<close> exactly
  when the first 60 characters of its lower-cased content are a substring of at least
  one lower-cased XML unit, and as \<open>MISSING\<close> otherwise; the table shows that status on
  the unit's first row and the summary counts the units found this way.
\<close>

theorem containment_matches_single_unit:
  "status_text_of (para_match (map lower xml_pool) para)
     = (if unit_found xml_pool para then ''FOUND'' else ''MISSING'')
   \<and> draw_table wrap pdf_paras xml_pool
       = [Border, Table_header, Border]
         @ concat (map (\<lambda>p. table_rows (if unit_found xml_pool p then ''FOUND'' else ''MISSING'') 0
                                (wrap 94 p) @ [Separator]) pdf_paras)
         @ [Border,
            Summary (length (filter (unit_found xml_pool) pdf_paras)) (length pdf_paras)
              (if pdf_paras \<noteq> []
               then Percent_of (length (filter (unit_found xml_pool) pdf_paras)) (length pdf_paras)
               else Percent_zero),
            Border]"
proof -
  have eq: "para_match (map lower xml_pool) = unit_found xml_pool"
    by (simp add: fun_eq_iff para_match_sublist unit_found_def)
  show ?thesis
    unfolding draw_table_report eq by (simp add: status_text_of_def)
qed

lemmas lower_defs = lower_def lower_char_def code_point_def

lemma sample_across_missing:
  "status_text_of (para_match (map lower sample_pool) sample_across) = ''MISSING''"
  by code_simp

lemma sample_across_blank_missing:
  "status_text_of (para_match (map lower sample_pool) sample_across_blank) = ''MISSING''"
  by code_simp

text \<open>
  C3, as stated, fails: a PDF unit whose prefix occurs in the concatenation of the XML
  units, across the boundary of two of them, is \<open>MISSING\<close>. This holds for the units
  joined directly and for the units joined by a blank.
\<close>

theorem containment_not_concatenation:
  "status_text_of (para_match (map lower sample_pool) sample_across) = ''MISSING''
   \<and> sublist (take 60 (lower sample_across)) (lower (concat sample_pool))
   \<and> status_text_of (para_match (map lower sample_pool) sample_across_blank) = ''MISSING''
   \<and> sublist (take 60 (lower sample_across_blank)) (lower (join '' '' sample_pool))"
proof -
  have "contains (take 60 (lower sample_across)) (lower (concat sample_pool))"
    by code_simp
  moreover have "contains (take 60 (lower sample_across_blank)) (lower (join '' '' sample_pool))"
    by code_simp
  ultimately show ?thesis
    using sample_across_missing sample_across_blank_missing by (simp add: contains_sublist)
qed

theorem containment_matches_single_unit_witness:
  "status_text_of (para_match (map lower sample_pool) ''the QUICK brown fox'') = ''FOUND''
   \<and> unit_found sample_pool ''the QUICK brown fox''
   \<and> status_text_of (para_match (map lower sample_pool) sample_across) = ''MISSING''
   \<and> \<not> unit_found sample_pool sample_across"
proof -
  have "status_text_of (para_match (map lower sample_pool) ''the QUICK brown fox'') = ''FOUND''"
    by code_simp
  then show ?thesis
    using containment_matches_single_unit [of sample_pool "''the QUICK brown fox''" "\<lambda>w t. [t]" "[]"]
          containment_matches_single_unit [of sample_pool sample_across "\<lambda>w t. [t]" "[]"]
          sample_across_missing
    by (auto split: if_splits)
qed















text \<open>
  On a paragraph with inline markup \<open>extract_xml_text\<close> reads the text before the
  first child only, where \<open>extract_xml_paragraphs\<close> reads the flattened text.
\<close>

lemma inline_markup_direct_text_only:
  "extract_xml_text (Some sample_inline) = Some ''See''
   \<and> extract_xml_paragraphs (Some sample_inline) = [''See the annual report for details.'']"
  by code_simp

lemma wrap_and_print_lines:
  "filter is_discrepancy_line (wrap_and_print wrap l t) = wrap_and_print wrap l t"
  "\<not> list_ex is_summary (wrap_and_print wrap l t)"
  "\<not> list_ex is_verified (wrap_and_print wrap l t)"
  by (auto simp: wrap_and_print_def list_ex_iff filter_id_conv split: list.splits)

lemma graph_entries_report:
  "graph_entries wrap n diff = Some r \<Longrightarrow>
     filter is_discrepancy_line r = concat (map (discrepancy_block wrap) (enumerate n diff))
     \<and> \<not> list_ex is_summary r \<and> \<not> list_ex is_verified r"
proof (induction diff arbitrary: n r)
  case Nil
  then show ?case by simp
next
  case (Cons entry diff)
  from Cons.prems obtain c cs where entry: "entry = c # cs"
    by (cases entry) auto
  from Cons.prems entry obtain r' where r': "graph_entries wrap (n + 1) diff = Some r'"
    by (auto simp: Let_def)
  note IH = Cons.IH [OF r']
  show ?case
    using Cons.prems r' IH unfolding entry
    by (auto simp: Let_def discrepancy_block_def wrap_and_print_lines)
qed

lemma example_diff:
  "differ_compare [''A.'', ''B.'', ''C.''] [''A.'', ''C.''] = Some [''  A.'', ''- B.'', ''  C.'']"
  by code_simp

lemma same_diff:
  "differ_compare (replicate 15 ''Same sentence.'') (replicate 15 ''Same sentence.'')
     = Some (replicate 15 ''  Same sentence.'')"
  by code_simp

text \<open>
  C4. On the PDF sequence \<open>A. B. C.\<close> against the XML sequence \<open>A. C.\<close> the graph shows
  \<open>B.\<close> as missing in XML at line 2 and no extra entry. The branch for unchanged
  entries compares the one-character status with a string of two blanks, so it is
  never taken: on 15 identical sentences the line-15 confirmation is not printed, and
  no report ever holds a \<open>Verified\<close> line.
\<close>

theorem match_branch_never_taken:
  "(\<forall>wrap. draw_comparison_graph differ_compare wrap [''A.'', ''B.'', ''C.''] [''A.'', ''C.'']
       = Some ([Border, Scan_title, Border, Dashes CHR ''-'']
               @ wrap_and_print wrap (Missing_in_xml 2) ''B.''
               @ [Dashes CHR ''-'', Border]))
   \<and> (\<forall>wrap. draw_comparison_graph differ_compare wrap
          (replicate 15 ''Same sentence.'') (replicate 15 ''Same sentence.'')
        = Some [Border, Scan_title, Border, Border])
   \<and> (\<forall>wrap n diff. case graph_entries wrap n diff of
                        None \<Rightarrow> True
                      | Some r \<Rightarrow> \<not> list_ex is_verified r)"
proof (intro conjI allI)
  fix wrap :: "nat \<Rightarrow> string \<Rightarrow> string list"
  show "draw_comparison_graph differ_compare wrap [''A.'', ''B.'', ''C.''] [''A.'', ''C.'']
       = Some ([Border, Scan_title, Border, Dashes CHR ''-'']
               @ wrap_and_print wrap (Missing_in_xml 2) ''B.''
               @ [Dashes CHR ''-'', Border])"
    by (simp add: draw_comparison_graph_def example_diff Let_def numeral_2_eq_2)
  have "graph_entries wrap n (replicate k ''  Same sentence.'') = Some []" for n k
    by (induction k arbitrary: n) (simp_all add: Let_def)
  then show "draw_comparison_graph differ_compare wrap
          (replicate 15 ''Same sentence.'') (replicate 15 ''Same sentence.'')
        = Some [Border, Scan_title, Border, Border]"
    by (simp add: draw_comparison_graph_def same_diff)
next
  fix wrap :: "nat \<Rightarrow> string \<Rightarrow> string list" and n diff
  show "case graph_entries wrap n diff of None \<Rightarrow> True | Some r \<Rightarrow> \<not> list_ex is_verified r"
    using graph_entries_report [of wrap n diff] by (simp split: option.splits)
qed

text \<open>
  C5, as the code has it. The containment table ends with its summary: the number of
  units found, the number of PDF units and the percentage computed from the two. The
  comparison graph holds no summary line; its discrepancy blocks are those of the
  PDF-only and XML-only diff entries, in the order of the diff, each labelled with the
  entry's number in the diff, counted from 1 over all entries.
\<close>

theorem reports_counts_and_order:
  "(\<exists>body. draw_table wrap pdf_paras xml_pool
       = body @ [Border,
                 Summary (length (filter (para_match (map lower xml_pool)) pdf_paras)) (length pdf_paras)
                   (if pdf_paras \<noteq> []
                    then Percent_of (length (filter (para_match (map lower xml_pool)) pdf_paras))
                           (length pdf_paras)
                    else Percent_zero),
                 Border])
   \<and> (\<forall>diff report.
         compare pdf_sent xml_sent = Some diff
         \<and> draw_comparison_graph compare wrap pdf_sent xml_sent = Some report
         \<longrightarrow> \<not> list_ex is_summary report
             \<and> filter is_discrepancy_line report
                 = concat (map (discrepancy_block wrap) (enumerate 1 diff)))"
proof (intro conjI allI impI)
  show "\<exists>body. draw_table wrap pdf_paras xml_pool
       = body @ [Border,
                 Summary (length (filter (para_match (map lower xml_pool)) pdf_paras)) (length pdf_paras)
                   (if pdf_paras \<noteq> []
                    then Percent_of (length (filter (para_match (map lower xml_pool)) pdf_paras))
                           (length pdf_paras)
                    else Percent_zero),
                 Border]"
    by (rule exI [of _ "[Border, Table_header, Border]
          @ concat (map (\<lambda>p. table_rows (status_text_of (para_match (map lower xml_pool) p)) 0 (wrap 94 p)
                               @ [Separator]) pdf_paras)"])
       (simp add: draw_table_report)
next
  fix diff report
  assume a: "compare pdf_sent xml_sent = Some diff
             \<and> draw_comparison_graph compare wrap pdf_sent xml_sent = Some report"
  then obtain body where body: "graph_entries wrap 1 diff = Some body"
    and report: "report = [Border, Scan_title, Border] @ body @ [Border]"
    by (auto simp: draw_comparison_graph_def)
  from graph_entries_report [OF body] report
  show "\<not> list_ex is_summary report" by simp
  from graph_entries_report [OF body] report
  show "filter is_discrepancy_line report
          = concat (map (discrepancy_block wrap) (enumerate 1 diff))"
    by simp
qed

lemma longer_diff:
  "differ_compare [''A.'', ''B.'', ''C.'', ''D.''] [''B.'', ''A.'', ''C.'', ''D.'', ''E.'']
     = Some [''+ B.'', ''  A.'', ''- B.'', ''  C.'', ''  D.'', ''+ E.'']"
  by code_simp

theorem reports_counts_and_order_witness:
  "differ_compare [''A.'', ''B.'', ''C.'', ''D.''] [''B.'', ''A.'', ''C.'', ''D.'', ''E.'']
     = Some [''+ B.'', ''  A.'', ''- B.'', ''  C.'', ''  D.'', ''+ E.'']
   \<and> (\<exists>report. draw_comparison_graph differ_compare (\<lambda>w t. [t])
          [''A.'', ''B.'', ''C.'', ''D.''] [''B.'', ''A.'', ''C.'', ''D.'', ''E.''] = Some report
        \<and> \<not> list_ex is_summary report
        \<and> filter is_discrepancy_line report
            = [Dashes CHR ''+'', Labelled (Extra_in_xml 1) ''B.'', Dashes CHR ''+'',
               Dashes CHR ''-'', Labelled (Missing_in_xml 3) ''B.'', Dashes CHR ''-'',
               Dashes CHR ''+'', Labelled (Extra_in_xml 6) ''E.'', Dashes CHR ''+''])"
proof -
  have r: "draw_comparison_graph differ_compare (\<lambda>w t. [t])
          [''A.'', ''B.'', ''C.'', ''D.''] [''B.'', ''A.'', ''C.'', ''D.'', ''E.'']
        = Some [Border, Scan_title, Border,
                Dashes CHR ''+'', Labelled (Extra_in_xml 1) ''B.'', Dashes CHR ''+'',
                Dashes CHR ''-'', Labelled (Missing_in_xml 3) ''B.'', Dashes CHR ''-'',
                Dashes CHR ''+'', Labelled (Extra_in_xml 6) ''E.'', Dashes CHR ''+'', Border]"
    by (simp add: draw_comparison_graph_def longer_diff Let_def wrap_and_print_def)
  show ?thesis
    using reports_counts_and_order
            [where compare = differ_compare and wrap = "\<lambda>w t. [t]"
               and pdf_sent = "[''A.'', ''B.'', ''C.'', ''D.'']"
               and xml_sent = "[''B.'', ''A.'', ''C.'', ''D.'', ''E.'']"
               and pdf_paras = "[]" and xml_pool = "[]"]
          longer_diff r
    by simp
qed

text \<open>
  C5, as stated, fails: the comparison graph for \<open>A. B. C.\<close> against \<open>A. C.\<close> holds no
  summary line, with counts or a percentage, and ends with the closing border.
\<close>

theorem alignment_has_no_summary:
  "\<forall>wrap. \<exists>report.
      draw_comparison_graph differ_compare wrap [''A.'', ''B.'', ''C.''] [''A.'', ''C.''] = Some report
      \<and> \<not> list_ex is_summary report
      \<and> last report = Border"
proof
  fix wrap :: "nat \<Rightarrow> string \<Rightarrow> string list"
  have "draw_comparison_graph differ_compare wrap [''A.'', ''B.'', ''C.''] [''A.'', ''C.'']
       = Some ([Border, Scan_title, Border, Dashes CHR ''-'']
               @ wrap_and_print wrap (Missing_in_xml 2) ''B.''
               @ [Dashes CHR ''-'', Border])"
    by (simp add: draw_comparison_graph_def example_diff Let_def numeral_2_eq_2)
  then show "\<exists>report.
      draw_comparison_graph differ_compare wrap [''A.'', ''B.'', ''C.''] [''A.'', ''C.''] = Some report
      \<and> \<not> list_ex is_summary report
      \<and> last report = Border"
    by (simp add: wrap_and_print_lines)
qed

end
